theory Spec2Isabelle
  imports Main "HOL-Library.Word" "HOL-Library.Signed_Division"
begin

section \<open>SurfaceMediaSource: the buffer-queue consumer of libstagefright\<close>

text \<open>
  A shallow embedding of \<^verbatim>\<open>media/libstagefright/SurfaceMediaSource.cpp\<close>.
  Every public method runs under \<^verbatim>\<open>mMutex\<close>, so each one is an atomic
  transformer of the object's data members. A method returns its status, the values it
  writes through its out-parameters, the condition-variable signals and callbacks it
  issues (in program order), and the members afterwards.
\<close>

subsection \<open>Status codes\<close>

text \<open>
  The status codes the file returns. \<^verbatim>\<open>NO_ERROR\<close> is another name of
  \<^verbatim>\<open>OK\<close>.
\<close>

datatype status_t = OK | BAD_VALUE | INVALID_OPERATION | NO_INIT | ERROR_END_OF_STREAM

abbreviation NO_ERROR :: status_t where
  "NO_ERROR \<equiv> OK"

text \<open>
  Modelled from the spec: the header defining the codes is absent. The file writes the
  result of an identity mismatch in connect and disconnect as \<^verbatim>\<open>-EINVAL\<close>; the
  spec (section 7) lists "bad slot index, bad buffer-count value, connect/disconnect
  identity mismatch" under the one result InvalidArgument, so \<^verbatim>\<open>-EINVAL\<close> is the
  code \<^verbatim>\<open>BAD_VALUE\<close>.
\<close>

abbreviation NEG_EINVAL :: status_t where
  "NEG_EINVAL \<equiv> BAD_VALUE"

subsection \<open>Outcomes of a call\<close>

text \<open>
  A call either returns, or ends the process through a failed \<^verbatim>\<open>CHECK\<close>
  (\<open>Abort\<close>), or has undefined behaviour (\<open>Fault\<close>: a null pointer is dereferenced
  or memory is accessed out of bounds), or suspends its thread on a condition variable
  (\<open>Wait\<close>).
\<close>

datatype 'a outcome = Return 'a | Abort | Fault | Wait

subsection \<open>Data\<close>

type_synonym byte = "8 word"

text \<open>
  A \<^verbatim>\<open>buffer_handle_t\<close> is a pointer; it is modelled by its object representation,
  the \<^verbatim>\<open>sizeof(buffer_handle_t)\<close> bytes that \<^verbatim>\<open>memcpy\<close> copies. Two handles
  are equal as pointers exactly when these bytes are equal.
\<close>

type_synonym buffer_handle_t = "byte list"

record GraphicBuffer =
  handle :: buffer_handle_t
  width :: int
  height :: int

datatype BufferState = FREE | DEQUEUED | QUEUED

record BufferSlot =
  mGraphicBuffer :: "GraphicBuffer option"
  mBufferState :: BufferState
  mRequestBufferCalled :: bool
  mTimestamp :: int

text \<open>
  The part of a \<^verbatim>\<open>MediaBuffer\<close> the file touches: the bytes behind
  \<^verbatim>\<open>data()\<close>, whether an observer is set, the reference count, and the
  \<^verbatim>\<open>kKeyTime\<close> entry of its metadata.
\<close>

record MediaBuffer =
  data :: "byte list"
  observer :: bool
  refcount :: int
  kKeyTime :: "int option"

datatype api =
    NO_CONNECTED_API
  | NATIVE_WINDOW_API_EGL
  | NATIVE_WINDOW_API_CPU
  | NATIVE_WINDOW_API_MEDIA
  | NATIVE_WINDOW_API_CAMERA
  | API_OTHER int

datatype condition = mDequeueCondition | mFrameAvailableCondition | mFrameCompleteCondition

datatype event = signal condition | broadcast condition | listener_onFrameAvailable nat

text \<open>
  The data members. \<^verbatim>\<open>mSlots\<close> is the array
  \<^verbatim>\<open>BufferSlot mSlots[NUM_BUFFER_SLOTS]\<close>; a smart pointer is an option, null
  being \<open>None\<close>; a listener is identified by a number. The frame counter
  \<^verbatim>\<open>mNumFramesEncoded\<close> is a 32-bit \<^verbatim>\<open>int\<close> and the start time
  \<^verbatim>\<open>mStartTimeNs\<close> a 64-bit one: they are machine words, whose increment and
  product wrap around. The buffer counts, the slot indices and the timestamps are only
  compared, copied and divided, which never leaves the range of their types; they are
  integers.
\<close>

record SurfaceMediaSource =
  mSlots :: "BufferSlot list"
  mBufferSlot :: "GraphicBuffer option list"
  mBufferCount :: int
  mClientBufferCount :: int
  mServerBufferCount :: int
  mSynchronousMode :: bool
  mConnectedApi :: api
  mStopped :: bool
  mQueue :: "int list"
  mCurrentSlot :: int
  mCurrentBuf :: "GraphicBuffer option"
  mCurrentTimestamp :: int
  mNumFramesEncoded :: "32 word"
  mDefaultWidth :: int
  mDefaultHeight :: int
  mFrameRate :: int
  mStartTimeNs :: "64 word"
  mFrameAvailableListener :: "nat option"

subsection \<open>Constants of the absent header\<close>

text \<open>
  The fixed capacity \<^verbatim>\<open>NUM_BUFFER_SLOTS\<close> is the declared size of the array
  \<^verbatim>\<open>mSlots\<close>. The header that fixes its value is absent, so the capacity is
  left open: it is the length of the list that models the array, which no method changes.
\<close>

definition NUM_BUFFER_SLOTS :: "SurfaceMediaSource \<Rightarrow> int" where
  "NUM_BUFFER_SLOTS s = int (length (mSlots s))"

text \<open>
  Modelled from the spec: the header declaring \<^verbatim>\<open>MIN_SYNC_BUFFER_SLOTS\<close> and
  \<^verbatim>\<open>MIN_ASYNC_BUFFER_SLOTS\<close> is absent. The spec (section 4.2) gives
  "MIN_ASYNC(=3)" and "minimum for synchronous mode, which is 2"; the comment in
  setBufferCount also writes \<^verbatim>\<open>MIN_ASYNC_BUFFER_SLOTS (3)\<close>.
\<close>

definition MIN_SYNC_BUFFER_SLOTS :: int where
  "MIN_SYNC_BUFFER_SLOTS = 2"

definition MIN_ASYNC_BUFFER_SLOTS :: int where
  "MIN_ASYNC_BUFFER_SLOTS = 3"

text \<open>
  Modelled from the spec: the header declaring \<^verbatim>\<open>INVALID_BUFFER_SLOT\<close> is absent;
  the spec only says that the current-slot marker is reset. It is a value that is no slot
  index; no result below depends on which.
\<close>

definition INVALID_BUFFER_SLOT :: int where
  "INVALID_BUFFER_SLOT = - 1"

subsection \<open>Buffer count\<close>

definition setBufferCountServerLocked ::
  "int \<Rightarrow> SurfaceMediaSource \<Rightarrow> status_t \<times> event list \<times> SurfaceMediaSource" where
  "setBufferCountServerLocked bufferCount s =
     (if bufferCount > NUM_BUFFER_SLOTS s then (BAD_VALUE, [], s)
      else if bufferCount = mBufferCount s then (OK, [], s)
      else if mClientBufferCount s = 0 \<and> bufferCount \<ge> mBufferCount s then
        (OK, [signal mDequeueCondition],
         s\<lparr>mBufferCount := bufferCount, mServerBufferCount := bufferCount\<rparr>)
      else if bufferCount < 2 then (BAD_VALUE, [], s)
      else (OK, [], s\<lparr>mServerBufferCount := bufferCount\<rparr>))"

definition setBufferCountServer ::
  "int \<Rightarrow> SurfaceMediaSource \<Rightarrow> status_t \<times> event list \<times> SurfaceMediaSource" where
  "setBufferCountServer bufferCount s = setBufferCountServerLocked bufferCount s"

definition freeAllBuffersLocked :: "SurfaceMediaSource \<Rightarrow> SurfaceMediaSource" where
  "freeAllBuffersLocked s =
     s\<lparr>mSlots := map (\<lambda>sl. sl\<lparr>mGraphicBuffer := None, mBufferState := FREE\<rparr>) (mSlots s)\<rparr>"

text \<open>
  The first loop of setBufferCount: does the client own a buffer among the slots
  \<open>i, ..., mBufferCount - 1\<close>? Reading a slot beyond the array is a fault.
\<close>

function setBufferCount_loop :: "int \<Rightarrow> SurfaceMediaSource \<Rightarrow> bool outcome" where
  "setBufferCount_loop i s =
     (if i < mBufferCount s then
        (if i < 0 \<or> NUM_BUFFER_SLOTS s \<le> i then Fault
         else if mBufferState (mSlots s ! nat i) = DEQUEUED then Return True
         else setBufferCount_loop (i + 1) s)
      else Return False)"
  by pat_completeness auto
termination
  by (relation "measure (\<lambda>(i, s). nat (mBufferCount s - i))") auto

declare setBufferCount_loop.simps [simp del]

definition setBufferCount ::
  "int \<Rightarrow> SurfaceMediaSource \<Rightarrow> (status_t \<times> event list \<times> SurfaceMediaSource) outcome" where
  "setBufferCount bufferCount s =
     (if bufferCount > NUM_BUFFER_SLOTS s then Return (BAD_VALUE, [], s)
      else case setBufferCount_loop 0 s of
        Return True \<Rightarrow> Return (INVALID_OPERATION, [], s)
      | Return False \<Rightarrow>
          (if bufferCount = 0 then
             (let minBufferSlots =
                    (if mSynchronousMode s then MIN_SYNC_BUFFER_SLOTS
                     else MIN_ASYNC_BUFFER_SLOTS);
                  s1 = s\<lparr>mClientBufferCount := 0\<rparr>;
                  bufferCount' =
                    (if mServerBufferCount s1 \<ge> minBufferSlots then mServerBufferCount s1
                     else minBufferSlots)
              in Return (setBufferCountServerLocked bufferCount' s1))
           else if bufferCount < MIN_ASYNC_BUFFER_SLOTS then Return (BAD_VALUE, [], s)
           else Return (OK, [signal mDequeueCondition],
                  freeAllBuffersLocked
                    (s\<lparr>mBufferCount := bufferCount, mClientBufferCount := bufferCount,
                       mCurrentSlot := INVALID_BUFFER_SLOT, mQueue := []\<rparr>)))
      | Abort \<Rightarrow> Abort
      | Fault \<Rightarrow> Fault
      | Wait \<Rightarrow> Wait)"

definition requestBuffer ::
  "int \<Rightarrow> SurfaceMediaSource \<Rightarrow>
   (status_t \<times> GraphicBuffer option option \<times> SurfaceMediaSource) outcome" where
  "requestBuffer slot s =
     (if slot < 0 \<or> mBufferCount s \<le> slot then Return (BAD_VALUE, None, s)
      else if NUM_BUFFER_SLOTS s \<le> slot then Fault
      else Return (NO_ERROR, Some (mGraphicBuffer (mSlots s ! nat slot)),
             s\<lparr>mSlots := (mSlots s)[nat slot :=
                  (mSlots s ! nat slot)\<lparr>mRequestBufferCalled := True\<rparr>]\<rparr>))"

definition setSynchronousMode ::
  "bool \<Rightarrow> SurfaceMediaSource \<Rightarrow> status_t \<times> event list \<times> SurfaceMediaSource" where
  "setSynchronousMode enabled s =
     (if mStopped s then (NO_INIT, [], s)
      else if \<not> enabled then (INVALID_OPERATION, [], s)
      else if mSynchronousMode s \<noteq> enabled then
        (OK, [signal mDequeueCondition], s\<lparr>mSynchronousMode := enabled\<rparr>)
      else (OK, [], s))"

subsection \<open>Connection\<close>

text \<open>
  connect writes the default width, the default height and a zero transform through its
  out-parameters only when it succeeds; \<open>None\<close> says that nothing was written.
\<close>

definition connect ::
  "api \<Rightarrow> SurfaceMediaSource \<Rightarrow>
   status_t \<times> (int \<times> int \<times> int) option \<times> SurfaceMediaSource" where
  "connect a s =
     (if mStopped s then (NO_INIT, None, s)
      else case a of
        NATIVE_WINDOW_API_EGL \<Rightarrow>
          (if mConnectedApi s \<noteq> NO_CONNECTED_API then (NEG_EINVAL, None, s)
           else (NO_ERROR, Some (mDefaultWidth s, mDefaultHeight s, 0), s\<lparr>mConnectedApi := a\<rparr>))
      | NATIVE_WINDOW_API_CPU \<Rightarrow>
          (if mConnectedApi s \<noteq> NO_CONNECTED_API then (NEG_EINVAL, None, s)
           else (NO_ERROR, Some (mDefaultWidth s, mDefaultHeight s, 0), s\<lparr>mConnectedApi := a\<rparr>))
      | NATIVE_WINDOW_API_MEDIA \<Rightarrow>
          (if mConnectedApi s \<noteq> NO_CONNECTED_API then (NEG_EINVAL, None, s)
           else (NO_ERROR, Some (mDefaultWidth s, mDefaultHeight s, 0), s\<lparr>mConnectedApi := a\<rparr>))
      | NATIVE_WINDOW_API_CAMERA \<Rightarrow>
          (if mConnectedApi s \<noteq> NO_CONNECTED_API then (NEG_EINVAL, None, s)
           else (NO_ERROR, Some (mDefaultWidth s, mDefaultHeight s, 0), s\<lparr>mConnectedApi := a\<rparr>))
      | _ \<Rightarrow> (NEG_EINVAL, None, s))"

definition disconnect ::
  "api \<Rightarrow> SurfaceMediaSource \<Rightarrow> status_t \<times> event list \<times> SurfaceMediaSource" where
  "disconnect a s =
     (if mStopped s then (NO_INIT, [], s)
      else case a of
        NATIVE_WINDOW_API_EGL \<Rightarrow>
          (if mConnectedApi s = a then
             (NO_ERROR, [signal mDequeueCondition, signal mFrameAvailableCondition],
              s\<lparr>mConnectedApi := NO_CONNECTED_API, mStopped := True\<rparr>)
           else (NEG_EINVAL, [], s))
      | NATIVE_WINDOW_API_CPU \<Rightarrow>
          (if mConnectedApi s = a then
             (NO_ERROR, [signal mDequeueCondition, signal mFrameAvailableCondition],
              s\<lparr>mConnectedApi := NO_CONNECTED_API, mStopped := True\<rparr>)
           else (NEG_EINVAL, [], s))
      | NATIVE_WINDOW_API_MEDIA \<Rightarrow>
          (if mConnectedApi s = a then
             (NO_ERROR, [signal mDequeueCondition, signal mFrameAvailableCondition],
              s\<lparr>mConnectedApi := NO_CONNECTED_API, mStopped := True\<rparr>)
           else (NEG_EINVAL, [], s))
      | NATIVE_WINDOW_API_CAMERA \<Rightarrow>
          (if mConnectedApi s = a then
             (NO_ERROR, [signal mDequeueCondition, signal mFrameAvailableCondition],
              s\<lparr>mConnectedApi := NO_CONNECTED_API, mStopped := True\<rparr>)
           else (NEG_EINVAL, [], s))
      | _ \<Rightarrow> (NEG_EINVAL, [], s))"

subsection \<open>Listeners, frame rate, start and stop\<close>

definition onFrameReceivedLocked ::
  "SurfaceMediaSource \<Rightarrow> status_t \<times> event list \<times> SurfaceMediaSource" where
  "onFrameReceivedLocked s =
     (let listener =
            (if mSynchronousMode s \<or> mQueue s = [] then mFrameAvailableListener s else None)
      in (OK,
          signal mFrameAvailableCondition #
            (case listener of None \<Rightarrow> [] | Some l \<Rightarrow> [listener_onFrameAvailable l]),
          s))"

definition setFrameAvailableListener ::
  "nat option \<Rightarrow> SurfaceMediaSource \<Rightarrow> SurfaceMediaSource" where
  "setFrameAvailableListener listener s = s\<lparr>mFrameAvailableListener := listener\<rparr>"

definition setFrameRate :: "int \<Rightarrow> SurfaceMediaSource \<Rightarrow> status_t \<times> SurfaceMediaSource" where
  "setFrameRate fps s =
     (let MAX_FRAME_RATE = 60
      in if fps < 0 \<or> fps > MAX_FRAME_RATE then (BAD_VALUE, s)
         else (OK, s\<lparr>mFrameRate := fps\<rparr>))"

text \<open>
  start reads the optional \<^verbatim>\<open>kKeyTime\<close> entry of its parameters: \<open>None\<close> when
  there are no parameters or no such entry. The product is that of 64-bit words.
\<close>

definition start :: "64 word option \<Rightarrow> SurfaceMediaSource \<Rightarrow> status_t \<times> SurfaceMediaSource" where
  "start params s =
     (case params of
        Some startTimeUs \<Rightarrow> (OK, s\<lparr>mStartTimeNs := startTimeUs * 1000\<rparr>)
      | None \<Rightarrow> (OK, s\<lparr>mStartTimeNs := 0\<rparr>))"

definition stop :: "SurfaceMediaSource \<Rightarrow> status_t \<times> event list \<times> SurfaceMediaSource" where
  "stop s =
     (OK, [signal mFrameAvailableCondition, signal mDequeueCondition],
      freeAllBuffersLocked (s\<lparr>mStopped := True, mQueue := []\<rparr>))"

definition onFrameAvailable :: "SurfaceMediaSource \<Rightarrow> event list \<times> SurfaceMediaSource" where
  "onFrameAvailable s =
     (broadcast mFrameAvailableCondition #
        (case mFrameAvailableListener s of
           None \<Rightarrow> []
         | Some l \<Rightarrow> [listener_onFrameAvailable l]),
      s)"

definition onBuffersReleased :: "SurfaceMediaSource \<Rightarrow> event list \<times> SurfaceMediaSource" where
  "onBuffersReleased s =
     ([signal mFrameAvailableCondition],
      s\<lparr>mBufferSlot := map (\<lambda>_. None) (mBufferSlot s)\<rparr>)"

subsection \<open>The metadata record and read\<close>

text \<open>
  Modelled from the spec: \<^verbatim>\<open>memcpy(data, &type, 4)\<close> copies the object
  representation of a 32-bit integer, which the sources do not fix; by the spec
  (section 6) the record starts with a "4-byte little-endian tag".
\<close>

definition le32 :: "32 word \<Rightarrow> byte list" where
  "le32 w = [ucast w, ucast (drop_bit 8 w), ucast (drop_bit 16 w), ucast (drop_bit 24 w)]"

text \<open>
  passMetadataBufferLocked. The value of \<^verbatim>\<open>kMetadataBufferTypeGrallocSource\<close>
  is declared in an absent header and is a parameter. \<open>alloc\<close> says whether the new
  \<^verbatim>\<open>MediaBuffer\<close> got its memory; a new buffer has no observer, no reference and
  no metadata. \<open>buffer\<close> is the caller's \<^verbatim>\<open>*buffer\<close>, which stays as it is when
  the allocation failed.
\<close>

definition passMetadataBufferLocked ::
  "32 word \<Rightarrow> bool \<Rightarrow> MediaBuffer option \<Rightarrow> SurfaceMediaSource \<Rightarrow> MediaBuffer option outcome"
  where
  "passMetadataBufferLocked kMetadataBufferTypeGrallocSource alloc buffer s =
     (if \<not> alloc then Return buffer
      else case mCurrentBuf s of
        None \<Rightarrow> Fault
      | Some gb \<Rightarrow>
          Return (Some \<lparr>data = le32 kMetadataBufferTypeGrallocSource @ handle gb,
                        observer = False, refcount = 0, kKeyTime = None\<rparr>))"

text \<open>
  read. The loop \<^verbatim>\<open>while (!mStopped && mQueue.empty()) wait\<close> suspends the caller
  until another thread changes the members: the call is \<open>Wait\<close> there. The division of
  the timestamp is C++'s, which truncates; the increment of the frame counter is that of
  a 32-bit word.
\<close>

definition read ::
  "32 word \<Rightarrow> bool \<Rightarrow> SurfaceMediaSource \<Rightarrow>
   (status_t \<times> MediaBuffer option \<times> SurfaceMediaSource) outcome" where
  "read kMetadataBufferTypeGrallocSource alloc s =
     (if \<not> mStopped s \<and> mQueue s = [] then Wait
      else if mStopped s then Return (ERROR_END_OF_STREAM, None, s)
      else
        (let front = hd (mQueue s)
         in if front < 0 \<or> NUM_BUFFER_SLOTS s \<le> front then Fault
            else
              (let s1 = s\<lparr>mCurrentSlot := front,
                          mQueue := tl (mQueue s),
                          mCurrentBuf := mGraphicBuffer (mSlots s ! nat front),
                          mCurrentTimestamp := mTimestamp (mSlots s ! nat front),
                          mNumFramesEncoded := mNumFramesEncoded s + 1\<rparr>
               in case passMetadataBufferLocked kMetadataBufferTypeGrallocSource alloc None s1 of
                    Return None \<Rightarrow> Fault
                  | Return (Some b) \<Rightarrow>
                      Return (OK,
                        Some (b\<lparr>observer := True, refcount := refcount b + 1,
                                kKeyTime := Some (mCurrentTimestamp s1 sdiv 1000)\<rparr>),
                        s1)
                  | Abort \<Rightarrow> Abort
                  | Fault \<Rightarrow> Fault
                  | Wait \<Rightarrow> Wait)))"

subsection \<open>The return path\<close>

text \<open>
  checkBufferMatchesSlot copies \<^verbatim>\<open>sizeof(buffer_handle_t)\<close> bytes from offset 4 of
  the record and compares them with the slot's handle. It dereferences the slot's buffer;
  a record too short for the copy is read out of bounds.
\<close>

definition checkBufferMatchesSlot ::
  "nat \<Rightarrow> MediaBuffer \<Rightarrow> SurfaceMediaSource \<Rightarrow> bool outcome" where
  "checkBufferMatchesSlot slot buffer s =
     (if length (mSlots s) \<le> slot then Fault
      else case mGraphicBuffer (mSlots s ! slot) of
        None \<Rightarrow> Fault
      | Some gb \<Rightarrow>
          (if length (data buffer) < 4 + length (handle gb) then Fault
           else Return (handle gb = take (length (handle gb)) (drop 4 (data buffer)))))"

text \<open>
  The loop of signalBufferReturned from slot \<open>slotId\<close> on (the source's \<^verbatim>\<open>id\<close>): the found flag, the signals and
  the members when the loop is left.
\<close>

function signalBufferReturned_loop ::
  "MediaBuffer \<Rightarrow> nat \<Rightarrow> SurfaceMediaSource \<Rightarrow>
   (bool \<times> event list \<times> SurfaceMediaSource) outcome" where
  "signalBufferReturned_loop buffer slotId s =
     (if slotId < length (mSlots s) then
        (if mGraphicBuffer (mSlots s ! slotId) = None then
           signalBufferReturned_loop buffer (Suc slotId) s
         else case checkBufferMatchesSlot slotId buffer s of
           Return True \<Rightarrow>
             Return (True, [signal mDequeueCondition, signal mFrameCompleteCondition],
               s\<lparr>mSlots := (mSlots s)[slotId := (mSlots s ! slotId)\<lparr>mBufferState := FREE\<rparr>]\<rparr>)
         | Return False \<Rightarrow> signalBufferReturned_loop buffer (Suc slotId) s
         | Abort \<Rightarrow> Abort
         | Fault \<Rightarrow> Fault
         | Wait \<Rightarrow> Wait)
      else Return (False, [], s))"
  by pat_completeness auto
termination
  by (relation "measure (\<lambda>(buffer, slotId, s). length (mSlots s) - slotId)") auto

declare signalBufferReturned_loop.simps [simp del]

text \<open>
  Modelled from the spec: the header defining the macro \<^verbatim>\<open>CHECK_EQ\<close> is absent.
  By the spec (sections 4.1 and 9) the check on the found flag is a hard assertion that
  aborts: \<^verbatim>\<open>CHECK_EQ(0, "...")\<close> compares the null constant with the address of a
  string literal, which differ, so reaching it is always \<open>Abort\<close>. On a match the
  call also clears the observer of the record and releases it; the record is not a member
  and is gone afterwards.
\<close>

definition signalBufferReturned ::
  "MediaBuffer \<Rightarrow> SurfaceMediaSource \<Rightarrow> (event list \<times> SurfaceMediaSource) outcome" where
  "signalBufferReturned buffer s =
     (if mStopped s then Return ([], s)
      else case signalBufferReturned_loop buffer 0 s of
        Return (foundBuffer, ev, s') \<Rightarrow> (if \<not> foundBuffer then Abort else Return (ev, s'))
      | Abort \<Rightarrow> Abort
      | Fault \<Rightarrow> Fault
      | Wait \<Rightarrow> Wait)"

subsection \<open>Calls and sequences of calls\<close>

text \<open>
  The methods of the file that write a data member, as calls with their arguments.
  The remaining methods (the getters, query, dump, getFormat) are \<^verbatim>\<open>const\<close> or
  write no member.
\<close>

datatype op =
    SetBufferCountServer int
  | SetBufferCount int
  | RequestBuffer int
  | SetSynchronousMode bool
  | Connect api
  | Disconnect api
  | SetFrameAvailableListener "nat option"
  | SetFrameRate int
  | Start "64 word option"
  | Stop
  | Read bool
  | SignalBufferReturned MediaBuffer
  | OnFrameAvailable
  | OnBuffersReleased

definition status_of :: "status_t \<times> 'a \<times> 'b \<Rightarrow> status_t" where
  "status_of r = fst r"

definition events_of :: "'a \<times> event list \<times> 'b \<Rightarrow> event list" where
  "events_of r = fst (snd r)"

definition state_of :: "'a \<times> 'b \<times> SurfaceMediaSource \<Rightarrow> SurfaceMediaSource" where
  "state_of r = snd (snd r)"

text \<open>The members after one call, for the given value of the record tag.\<close>

definition step :: "32 word \<Rightarrow> op \<Rightarrow> SurfaceMediaSource \<Rightarrow> SurfaceMediaSource outcome" where
  "step tag c s =
     (case c of
        SetBufferCountServer k \<Rightarrow> Return (state_of (setBufferCountServer k s))
      | SetBufferCount k \<Rightarrow> map_outcome state_of (setBufferCount k s)
      | RequestBuffer slot \<Rightarrow> map_outcome state_of (requestBuffer slot s)
      | SetSynchronousMode enabled \<Rightarrow> Return (state_of (setSynchronousMode enabled s))
      | Connect a \<Rightarrow> Return (state_of (connect a s))
      | Disconnect a \<Rightarrow> Return (state_of (disconnect a s))
      | SetFrameAvailableListener l \<Rightarrow> Return (setFrameAvailableListener l s)
      | SetFrameRate fps \<Rightarrow> Return (snd (setFrameRate fps s))
      | Start params \<Rightarrow> Return (snd (start params s))
      | Stop \<Rightarrow> Return (state_of (stop s))
      | Read alloc \<Rightarrow> map_outcome state_of (read tag alloc s)
      | SignalBufferReturned buffer \<Rightarrow> map_outcome snd (signalBufferReturned buffer s)
      | OnFrameAvailable \<Rightarrow> Return (snd (onFrameAvailable s))
      | OnBuffersReleased \<Rightarrow> Return (snd (onBuffersReleased s)))"

text \<open>
  A sequence of calls, each atomic under the mutex. A call that waits leaves the members
  as they are and the other threads go on; an abort or a fault ends the run.
\<close>

fun run :: "32 word \<Rightarrow> op list \<Rightarrow> SurfaceMediaSource \<Rightarrow> SurfaceMediaSource outcome" where
  "run tag [] s = Return s"
| "run tag (c # cs) s =
     (case step tag c s of
        Return s' \<Rightarrow> run tag cs s'
      | Wait \<Rightarrow> run tag cs s
      | Abort \<Rightarrow> Abort
      | Fault \<Rightarrow> Fault)"

subsection \<open>A concrete session\<close>

text \<open>
  Four slots; a producer connected as CPU has queued the buffer of slot 0 with timestamp
  100; slot 1 holds a second buffer and is free.
\<close>

definition buffer_A :: GraphicBuffer where
  "buffer_A = \<lparr>handle = [0x10, 0x32, 0x54, 0x76], width = 640, height = 480\<rparr>"

definition buffer_B :: GraphicBuffer where
  "buffer_B = \<lparr>handle = [0x98, 0xBA, 0xDC, 0xFE], width = 640, height = 480\<rparr>"

definition empty_slot :: BufferSlot where
  "empty_slot = \<lparr>mGraphicBuffer = None, mBufferState = FREE,
                 mRequestBufferCalled = False, mTimestamp = 0\<rparr>"

definition session :: SurfaceMediaSource where
  "session =
     \<lparr>mSlots =
        [\<lparr>mGraphicBuffer = Some buffer_A, mBufferState = QUEUED,
          mRequestBufferCalled = True, mTimestamp = 100\<rparr>,
         \<lparr>mGraphicBuffer = Some buffer_B, mBufferState = FREE,
          mRequestBufferCalled = True, mTimestamp = 0\<rparr>,
         empty_slot, empty_slot],
      mBufferSlot = [None, None, None, None],
      mBufferCount = 4, mClientBufferCount = 0, mServerBufferCount = 4,
      mSynchronousMode = True, mConnectedApi = NATIVE_WINDOW_API_CPU, mStopped = False,
      mQueue = [0], mCurrentSlot = - 1, mCurrentBuf = None, mCurrentTimestamp = 0,
      mNumFramesEncoded = 0, mDefaultWidth = 640, mDefaultHeight = 480, mFrameRate = 30,
      mStartTimeNs = 0, mFrameAvailableListener = None\<rparr>"

definition stopped_session :: SurfaceMediaSource where
  "stopped_session = session\<lparr>mStopped := True\<rparr>"

text \<open>
  The server count is 2 while four buffers are in use: the members after the client
  asked for four buffers and then gave its override up (see \<open>deferred_counts_reached\<close>).
\<close>

definition deferred_session :: SurfaceMediaSource where
  "deferred_session = session\<lparr>mServerBufferCount := 2\<rparr>"

subsection \<open>Notions used by the properties\<close>

text \<open>The identities that the switch of connect and disconnect accepts.\<close>

definition producer_apis :: "api set" where
  "producer_apis = {NATIVE_WINDOW_API_EGL, NATIVE_WINDOW_API_CPU,
                    NATIVE_WINDOW_API_MEDIA, NATIVE_WINDOW_API_CAMERA}"

text \<open>The members after the assignment \<^verbatim>\<open>mSlots[i].mBufferState = BufferSlot::FREE\<close>.\<close>

definition freed_slot :: "nat \<Rightarrow> SurfaceMediaSource \<Rightarrow> SurfaceMediaSource" where
  "freed_slot i s = s\<lparr>mSlots := (mSlots s)[i := (mSlots s ! i)\<lparr>mBufferState := FREE\<rparr>]\<rparr>"

text \<open>A record whose handle bytes are the handle of no buffer of the session.\<close>

definition bogus_record :: MediaBuffer where
  "bogus_record = \<lparr>data = [1, 0, 0, 0, 0xEF, 0xBE, 0xAD, 0xDE], observer = True,
                    refcount = 0, kKeyTime = Some 0\<rparr>"

text \<open>
  Slots 0 and 1 hold buffers with the same handle, both queued; \<open>record_A\<close> is the record
  that read produces for that handle with tag 1 and timestamp 100.
\<close>

definition twin_session :: SurfaceMediaSource where
  "twin_session =
     session\<lparr>mSlots :=
        [\<lparr>mGraphicBuffer = Some buffer_A, mBufferState = QUEUED,
          mRequestBufferCalled = True, mTimestamp = 100\<rparr>,
         \<lparr>mGraphicBuffer = Some buffer_A, mBufferState = QUEUED,
          mRequestBufferCalled = True, mTimestamp = 200\<rparr>,
         empty_slot, empty_slot],
       mQueue := [0, 1]\<rparr>"

definition record_A :: MediaBuffer where
  "record_A = \<lparr>data = [1, 0, 0, 0, 0x10, 0x32, 0x54, 0x76], observer = True,
                refcount = 1, kKeyTime = Some 0\<rparr>"

text \<open>The members after read has delivered slot 0 of \<open>session\<close>.\<close>

definition session_read :: SurfaceMediaSource where
  "session_read = session\<lparr>mCurrentSlot := 0, mQueue := [], mCurrentBuf := Some buffer_A,
                          mCurrentTimestamp := 100, mNumFramesEncoded := 1\<rparr>"



section \<open>Properties\<close>

subsection \<open>read on a stopped session\<close>

text \<open>
  C4: in every state with the stopped flag set, read returns the end-of-stream result
  and leaves every member, the Ready Queue included, as it was, also when the Ready
  Queue is not empty.
\<close>

theorem read_stopped_end_of_stream:
  "mStopped s \<Longrightarrow> read tag alloc s = Return (ERROR_END_OF_STREAM, None, s)"
  by (simp add: read_def)

theorem read_stopped_end_of_stream_witness:
  "mStopped stopped_session \<and> mQueue stopped_session = [0] \<and>
   read 1 True stopped_session = Return (ERROR_END_OF_STREAM, None, stopped_session)"
  using read_stopped_end_of_stream [of stopped_session 1 True]
  by (simp add: stopped_session_def session_def)

subsection \<open>setSynchronousMode(false)\<close>

text \<open>
  The claim C7 ("for every state, setSynchronousMode(false) fails with the illegal-state
  result and never returns any other result") fails on a stopped session, where the
  guard on the stopped flag answers first, with \<^verbatim>\<open>NO_INIT\<close>.
\<close>

theorem setSynchronousMode_false_counterexample:
  "mStopped stopped_session \<and>
   status_of (setSynchronousMode False stopped_session) \<noteq> INVALID_OPERATION"
  by (simp add: setSynchronousMode_def status_of_def stopped_session_def session_def)

text \<open>
  C7, amended: setSynchronousMode(false) never succeeds and changes no member; it fails
  with \<^verbatim>\<open>INVALID_OPERATION\<close> (illegal state) on a session that is not stopped and
  with \<^verbatim>\<open>NO_INIT\<close> on a stopped one.
\<close>

theorem setSynchronousMode_false_fails:
  "setSynchronousMode False s =
     ((if mStopped s then NO_INIT else INVALID_OPERATION), [], s)"
  by (simp add: setSynchronousMode_def)

theorem setSynchronousMode_false_fails_witness:
  "setSynchronousMode False session = (INVALID_OPERATION, [], session) \<and>
   setSynchronousMode False stopped_session = (NO_INIT, [], stopped_session)"
  using setSynchronousMode_false_fails [of session]
    setSynchronousMode_false_fails [of stopped_session]
  by (simp add: stopped_session_def session_def)

subsection \<open>Failures of connect\<close>

text \<open>
  The claim C5 ("connect returns the invalid-argument result both when a producer is
  connected and when the session has stopped") fails on a stopped session: the result
  there is \<^verbatim>\<open>NO_INIT\<close>.
\<close>

theorem connect_stopped_counterexample:
  "NATIVE_WINDOW_API_CPU \<in> producer_apis \<and> mStopped stopped_session \<and>
   status_of (connect NATIVE_WINDOW_API_CPU stopped_session) \<noteq> NEG_EINVAL"
  by (simp add: connect_def status_of_def stopped_session_def session_def producer_apis_def)

text \<open>
  C5, amended: for every api among EGL, CPU, MEDIA and CAMERA, connect returns the
  invalid-argument result when the session is not stopped and a producer is already
  connected, and the \<^verbatim>\<open>NO_INIT\<close> result when the session has stopped; in both
  cases no member changes and nothing is written through the out-parameters.
\<close>

theorem connect_failures:
  assumes "a \<in> producer_apis"
  shows "(\<not> mStopped s \<and> mConnectedApi s \<noteq> NO_CONNECTED_API \<longrightarrow>
            connect a s = (NEG_EINVAL, None, s)) \<and>
         (mStopped s \<longrightarrow> connect a s = (NO_INIT, None, s))"
  using assms by (auto simp: connect_def producer_apis_def)

theorem connect_failures_witness:
  "NATIVE_WINDOW_API_MEDIA \<in> producer_apis \<and>
   \<not> mStopped session \<and> mConnectedApi session \<noteq> NO_CONNECTED_API \<and>
   connect NATIVE_WINDOW_API_MEDIA session = (NEG_EINVAL, None, session) \<and>
   mStopped stopped_session \<and>
   connect NATIVE_WINDOW_API_MEDIA stopped_session = (NO_INIT, None, stopped_session)"
proof -
  have a: "NATIVE_WINDOW_API_MEDIA \<in> producer_apis" by (simp add: producer_apis_def)
  show ?thesis
    using a connect_failures [OF a, of session] connect_failures [OF a, of stopped_session]
    by (simp add: stopped_session_def session_def)
qed

subsection \<open>stop is idempotent\<close>

lemma stop_state:
  "state_of (stop s) = freeAllBuffersLocked (s\<lparr>mStopped := True, mQueue := []\<rparr>)"
  by (simp add: stop_def state_of_def)

lemma freeAllBuffersLocked_idem:
  "freeAllBuffersLocked (freeAllBuffersLocked s) = freeAllBuffersLocked s"
  by (simp add: freeAllBuffersLocked_def comp_def)

lemma stop_stop: "state_of (stop (state_of (stop s))) = state_of (stop s)"
  by (simp add: stop_def state_of_def freeAllBuffersLocked_def comp_def)

lemma disconnect_ok_stopped:
  "status_of (disconnect a s) = OK \<Longrightarrow> mStopped (state_of (disconnect a s))"
  by (auto simp: disconnect_def status_of_def state_of_def split: if_splits api.splits)

lemma disconnect_stopped: "mStopped s \<Longrightarrow> disconnect a s = (NO_INIT, [], s)"
  by (simp add: disconnect_def)

text \<open>
  C10: in every state, stopped or not, stop returns \<^verbatim>\<open>OK\<close>; stopping twice gives
  the members that stopping once gives, with the stopped flag set, the Ready Queue empty
  and every slot \<^verbatim>\<open>FREE\<close> with a null buffer; whereas a disconnect after a
  successful disconnect reports the failure \<^verbatim>\<open>NO_INIT\<close>.
\<close>

theorem stop_idempotent:
  "status_of (stop s) = OK \<and>
   state_of (stop (state_of (stop s))) = state_of (stop s) \<and>
   mStopped (state_of (stop s)) \<and>
   mQueue (state_of (stop s)) = [] \<and>
   (\<forall>sl \<in> set (mSlots (state_of (stop s))).
      mBufferState sl = FREE \<and> mGraphicBuffer sl = None) \<and>
   (status_of (disconnect a s) = OK \<longrightarrow>
      status_of (disconnect b (state_of (disconnect a s))) = NO_INIT)"
proof -
  have 1: "status_of (stop s) = OK" by (simp add: stop_def status_of_def)
  have 3: "mStopped (state_of (stop s))" "mQueue (state_of (stop s)) = []"
    by (simp_all add: stop_state freeAllBuffersLocked_def)
  have 4: "\<forall>sl \<in> set (mSlots (state_of (stop s))).
      mBufferState sl = FREE \<and> mGraphicBuffer sl = None"
    by (auto simp: stop_state freeAllBuffersLocked_def)
  have 5: "status_of (disconnect a s) = OK \<longrightarrow>
      status_of (disconnect b (state_of (disconnect a s))) = NO_INIT"
    using disconnect_ok_stopped [of a s]
    by (auto simp: disconnect_stopped status_of_def)
  from 1 stop_stop 3 4 5 show ?thesis by blast
qed

theorem stop_idempotent_witness:
  "status_of (stop session) = OK \<and>
   state_of (stop (state_of (stop session))) = state_of (stop session) \<and>
   mStopped (state_of (stop session)) \<and>
   mQueue (state_of (stop session)) = [] \<and>
   map mBufferState (mSlots (state_of (stop session))) = [FREE, FREE, FREE, FREE] \<and>
   map mGraphicBuffer (mSlots (state_of (stop session))) = [None, None, None, None] \<and>
   status_of (disconnect NATIVE_WINDOW_API_CPU session) = OK \<and>
   status_of (disconnect NATIVE_WINDOW_API_CPU
      (state_of (disconnect NATIVE_WINDOW_API_CPU session))) = NO_INIT"
  using stop_idempotent [of session NATIVE_WINDOW_API_CPU NATIVE_WINDOW_API_CPU]
  by (simp add: session_def stop_def disconnect_def status_of_def state_of_def
      freeAllBuffersLocked_def empty_slot_def)

subsection \<open>setBufferCountServer\<close>

text \<open>
  The claim C8 ("with no client override and k at least the current count,
  setBufferCountServer(k) sets both counts to k and signals the dequeue condition")
  fails when k equals the current count: the call returns at once, signals nothing and
  leaves a differing server count as it is.
\<close>

theorem setBufferCountServer_same_count_counterexample:
  "4 \<le> NUM_BUFFER_SLOTS deferred_session \<and>
   mClientBufferCount deferred_session = 0 \<and>
   4 \<ge> mBufferCount deferred_session \<and>
   events_of (setBufferCountServer 4 deferred_session) = [] \<and>
   mServerBufferCount (state_of (setBufferCountServer 4 deferred_session)) \<noteq> 4"
  by (simp add: setBufferCountServer_def setBufferCountServerLocked_def NUM_BUFFER_SLOTS_def
      events_of_def state_of_def deferred_session_def session_def)

text \<open>
  C8, amended: for every k not above the fixed capacity, setBufferCountServer(k) does
  nothing and returns \<^verbatim>\<open>OK\<close> when k equals the current buffer count; with no
  client override and k above the current count it sets the buffer count and the server
  count to k and signals the dequeue condition; otherwise (an override is active, or k is
  below the current count) it only records k as the server count, or fails with
  \<^verbatim>\<open>BAD_VALUE\<close> and changes nothing when k is below 2.
\<close>

theorem setBufferCountServer_cases:
  assumes "k \<le> NUM_BUFFER_SLOTS s"
  shows "(k = mBufferCount s \<longrightarrow> setBufferCountServer k s = (OK, [], s)) \<and>
         (mClientBufferCount s = 0 \<and> k > mBufferCount s \<longrightarrow>
            setBufferCountServer k s =
              (OK, [signal mDequeueCondition],
               s\<lparr>mBufferCount := k, mServerBufferCount := k\<rparr>)) \<and>
         ((mClientBufferCount s \<noteq> 0 \<and> k \<noteq> mBufferCount s \<or> k < mBufferCount s) \<and> 2 \<le> k \<longrightarrow>
            setBufferCountServer k s = (OK, [], s\<lparr>mServerBufferCount := k\<rparr>)) \<and>
         ((mClientBufferCount s \<noteq> 0 \<and> k \<noteq> mBufferCount s \<or> k < mBufferCount s) \<and> k < 2 \<longrightarrow>
            setBufferCountServer k s = (BAD_VALUE, [], s))"
  using assms by (auto simp: setBufferCountServer_def setBufferCountServerLocked_def)

theorem setBufferCountServer_cases_witness:
  "4 \<le> NUM_BUFFER_SLOTS session \<and> 4 = mBufferCount session \<and>
   setBufferCountServer 4 session = (OK, [], session) \<and>
   3 \<le> NUM_BUFFER_SLOTS (session\<lparr>mBufferCount := 2\<rparr>) \<and>
   mClientBufferCount (session\<lparr>mBufferCount := 2\<rparr>) = 0 \<and>
   3 > mBufferCount (session\<lparr>mBufferCount := 2\<rparr>) \<and>
   setBufferCountServer 3 (session\<lparr>mBufferCount := 2\<rparr>) =
     (OK, [signal mDequeueCondition], session\<lparr>mBufferCount := 3, mServerBufferCount := 3\<rparr>) \<and>
   3 < mBufferCount session \<and>
   setBufferCountServer 3 session = (OK, [], session\<lparr>mServerBufferCount := 3\<rparr>) \<and>
   1 \<le> NUM_BUFFER_SLOTS session \<and> 1 < mBufferCount session \<and>
   setBufferCountServer 1 session = (BAD_VALUE, [], session)"
  using setBufferCountServer_cases [of 4 session]
    setBufferCountServer_cases [of 3 "session\<lparr>mBufferCount := 2\<rparr>"]
    setBufferCountServer_cases [of 3 session]
    setBufferCountServer_cases [of 1 session]
  by (simp add: session_def NUM_BUFFER_SLOTS_def)

subsection \<open>setBufferCount at the boundaries\<close>

lemma setBufferCount_loop_no_dequeued:
  "0 \<le> i \<Longrightarrow> mBufferCount s \<le> NUM_BUFFER_SLOTS s \<Longrightarrow>
   \<forall>sl \<in> set (mSlots s). mBufferState sl \<noteq> DEQUEUED \<Longrightarrow>
   setBufferCount_loop i s = Return False"
proof (induction i s rule: setBufferCount_loop.induct)
  case (1 i s)
  show ?case
  proof (cases "i < mBufferCount s")
    case False
    then show ?thesis by (subst setBufferCount_loop.simps) simp
  next
    case True
    with "1.prems" have inb: "nat i < length (mSlots s)"
      by (simp add: NUM_BUFFER_SLOTS_def)
    then have nd: "mBufferState (mSlots s ! nat i) \<noteq> DEQUEUED"
      using "1.prems"(3) by simp
    have rec: "setBufferCount_loop (i + 1) s = Return False"
      using "1.IH" True "1.prems" inb nd by (simp add: NUM_BUFFER_SLOTS_def)
    show ?thesis
      using True "1.prems"(1) inb nd rec
      by (subst setBufferCount_loop.simps) (simp add: NUM_BUFFER_SLOTS_def)
  qed
qed

text \<open>
  The claim C6 fails in its last part ("setBufferCount(1) fails with the IllegalState
  result, assuming no slot is DEQUEUED"): with no slot dequeued the result is
  \<^verbatim>\<open>BAD_VALUE\<close>, a count below \<^verbatim>\<open>MIN_ASYNC_BUFFER_SLOTS\<close>.
\<close>

theorem setBufferCount_one_counterexample:
  "list_all (\<lambda>sl. mBufferState sl \<noteq> DEQUEUED) (mSlots session) \<and>
   setBufferCount 1 session = Return (BAD_VALUE, [], session) \<and>
   setBufferCount 1 session \<noteq> Return (INVALID_OPERATION, [], session)"
proof -
  have nd: "\<forall>sl \<in> set (mSlots session). mBufferState sl \<noteq> DEQUEUED"
    by (simp add: session_def empty_slot_def)
  have "setBufferCount_loop 0 session = Return False"
    by (rule setBufferCount_loop_no_dequeued) (simp_all add: nd, simp add: session_def NUM_BUFFER_SLOTS_def)
  then show ?thesis using nd
    by (simp add: setBufferCount_def NUM_BUFFER_SLOTS_def MIN_ASYNC_BUFFER_SLOTS_def list_all_iff)
qed

text \<open>
  C6, amended: when the capacity N is at least \<^verbatim>\<open>MIN_ASYNC_BUFFER_SLOTS\<close>, the
  buffer count is within the capacity and no slot is DEQUEUED, setBufferCount(N)
  succeeds, setBufferCount(N+1) fails with \<^verbatim>\<open>BAD_VALUE\<close> (the result for a count
  above the capacity), and setBufferCount(1) fails with \<^verbatim>\<open>BAD_VALUE\<close> as well.
\<close>

theorem setBufferCount_boundary:
  assumes "MIN_ASYNC_BUFFER_SLOTS \<le> NUM_BUFFER_SLOTS s"
    and "mBufferCount s \<le> NUM_BUFFER_SLOTS s"
    and "\<forall>sl \<in> set (mSlots s). mBufferState sl \<noteq> DEQUEUED"
  shows "setBufferCount (NUM_BUFFER_SLOTS s) s =
           Return (OK, [signal mDequeueCondition],
             freeAllBuffersLocked
               (s\<lparr>mBufferCount := NUM_BUFFER_SLOTS s, mClientBufferCount := NUM_BUFFER_SLOTS s,
                  mCurrentSlot := INVALID_BUFFER_SLOT, mQueue := []\<rparr>)) \<and>
         setBufferCount (NUM_BUFFER_SLOTS s + 1) s = Return (BAD_VALUE, [], s) \<and>
         setBufferCount 1 s = Return (BAD_VALUE, [], s)"
proof -
  have loop: "setBufferCount_loop 0 s = Return False"
    using assms(2,3) by (simp add: setBufferCount_loop_no_dequeued)
  have a: "setBufferCount (NUM_BUFFER_SLOTS s) s =
           Return (OK, [signal mDequeueCondition],
             freeAllBuffersLocked
               (s\<lparr>mBufferCount := NUM_BUFFER_SLOTS s, mClientBufferCount := NUM_BUFFER_SLOTS s,
                  mCurrentSlot := INVALID_BUFFER_SLOT, mQueue := []\<rparr>))"
    using assms(1) loop by (simp add: setBufferCount_def MIN_ASYNC_BUFFER_SLOTS_def)
  have b: "setBufferCount (NUM_BUFFER_SLOTS s + 1) s = Return (BAD_VALUE, [], s)"
    by (simp add: setBufferCount_def)
  have c: "setBufferCount 1 s = Return (BAD_VALUE, [], s)"
    using loop by (simp add: setBufferCount_def MIN_ASYNC_BUFFER_SLOTS_def)
  from a b c show ?thesis by simp
qed

theorem setBufferCount_boundary_witness:
  "MIN_ASYNC_BUFFER_SLOTS \<le> NUM_BUFFER_SLOTS session \<and>
   mBufferCount session \<le> NUM_BUFFER_SLOTS session \<and>
   list_all (\<lambda>sl. mBufferState sl \<noteq> DEQUEUED) (mSlots session) \<and>
   NUM_BUFFER_SLOTS session = 4 \<and>
   setBufferCount 4 session =
     Return (OK, [signal mDequeueCondition],
       freeAllBuffersLocked
         (session\<lparr>mBufferCount := 4, mClientBufferCount := 4,
                  mCurrentSlot := INVALID_BUFFER_SLOT, mQueue := []\<rparr>)) \<and>
   setBufferCount 5 session = Return (BAD_VALUE, [], session) \<and>
   setBufferCount 1 session = Return (BAD_VALUE, [], session)"
proof -
  have h1: "MIN_ASYNC_BUFFER_SLOTS \<le> NUM_BUFFER_SLOTS session"
    by (simp add: MIN_ASYNC_BUFFER_SLOTS_def NUM_BUFFER_SLOTS_def session_def)
  have h2: "mBufferCount session \<le> NUM_BUFFER_SLOTS session"
    by (simp add: NUM_BUFFER_SLOTS_def session_def)
  have h3: "\<forall>sl \<in> set (mSlots session). mBufferState sl \<noteq> DEQUEUED"
    by (simp add: session_def empty_slot_def)
  have n: "NUM_BUFFER_SLOTS session = 4"
    by (simp add: NUM_BUFFER_SLOTS_def session_def)
  show ?thesis
    using setBufferCount_boundary [OF h1 h2 h3] h1 h2 h3 n
    by (simp add: list_all_iff)
qed

text \<open>
  The counts of \<open>deferred_session\<close> arise from two calls of the client: it asks for
  four buffers and then gives its override up, with a server count of 2.
\<close>

lemma deferred_counts_reached:
  "\<exists>t. run tag [SetBufferCount 4, SetBufferCount 0]
          (session\<lparr>mBufferCount := 2, mServerBufferCount := 2\<rparr>) = Return t \<and>
       mBufferCount t = mBufferCount deferred_session \<and>
       mClientBufferCount t = mClientBufferCount deferred_session \<and>
       mServerBufferCount t = mServerBufferCount deferred_session"
proof -
  let ?s0 = "session\<lparr>mBufferCount := 2, mServerBufferCount := 2\<rparr>"
  let ?s1 = "freeAllBuffersLocked
               (?s0\<lparr>mBufferCount := 4, mClientBufferCount := 4,
                    mCurrentSlot := INVALID_BUFFER_SLOT, mQueue := []\<rparr>)"
  have l0: "setBufferCount_loop 0 ?s0 = Return False"
    by (rule setBufferCount_loop_no_dequeued)
       (simp_all add: session_def empty_slot_def NUM_BUFFER_SLOTS_def)
  have c1: "setBufferCount 4 ?s0 = Return (OK, [signal mDequeueCondition], ?s1)"
    using l0 by (simp add: setBufferCount_def MIN_ASYNC_BUFFER_SLOTS_def NUM_BUFFER_SLOTS_def session_def)
  have l1: "setBufferCount_loop 0 ?s1 = Return False"
    by (rule setBufferCount_loop_no_dequeued)
       (simp_all add: session_def empty_slot_def NUM_BUFFER_SLOTS_def freeAllBuffersLocked_def)
  have c2: "setBufferCount 0 ?s1 = Return (OK, [], ?s1\<lparr>mClientBufferCount := 0, mServerBufferCount := 2\<rparr>)"
    using l1 by (simp add: setBufferCount_def setBufferCountServerLocked_def MIN_SYNC_BUFFER_SLOTS_def
        MIN_ASYNC_BUFFER_SLOTS_def NUM_BUFFER_SLOTS_def session_def freeAllBuffersLocked_def)
  show ?thesis
    using c1 c2 by (simp add: step_def state_of_def deferred_session_def session_def freeAllBuffersLocked_def)
qed

subsection \<open>The scan of signalBufferReturned\<close>

lemma signalBufferReturned_loop_no_match:
  "\<forall>j. i \<le> j \<and> j < length (mSlots s) \<longrightarrow> mGraphicBuffer (mSlots s ! j) \<noteq> None \<longrightarrow>
         checkBufferMatchesSlot j b s = Return False \<Longrightarrow>
   signalBufferReturned_loop b i s = Return (False, [], s)"
proof (induction b i s rule: signalBufferReturned_loop.induct)
  case (1 b i s)
  show ?case
  proof (cases "i < length (mSlots s)")
    case False
    then show ?thesis by (subst signalBufferReturned_loop.simps) simp
  next
    case inb: True
    show ?thesis
    proof (cases "mGraphicBuffer (mSlots s ! i) = None")
      case True
      have "signalBufferReturned_loop b (Suc i) s = Return (False, [], s)"
        using "1.IH"(1) [OF inb True] "1.prems" by simp
      then show ?thesis using inb True by (subst signalBufferReturned_loop.simps) simp
    next
      case False
      have chk: "checkBufferMatchesSlot i b s = Return False"
        using "1.prems" inb False by simp
      have "signalBufferReturned_loop b (Suc i) s = Return (False, [], s)"
        using "1.IH"(2) [OF inb False chk] "1.prems" by simp
      then show ?thesis using inb False chk by (subst signalBufferReturned_loop.simps) simp
    qed
  qed
qed

lemma signalBufferReturned_loop_first_match:
  "i \<le> k \<Longrightarrow> k < length (mSlots s) \<Longrightarrow> mGraphicBuffer (mSlots s ! k) \<noteq> None \<Longrightarrow>
   checkBufferMatchesSlot k b s = Return True \<Longrightarrow>
   \<forall>j. i \<le> j \<and> j < k \<longrightarrow> mGraphicBuffer (mSlots s ! j) \<noteq> None \<longrightarrow>
         checkBufferMatchesSlot j b s = Return False \<Longrightarrow>
   signalBufferReturned_loop b i s =
     Return (True, [signal mDequeueCondition, signal mFrameCompleteCondition], freed_slot k s)"
proof (induction b i s rule: signalBufferReturned_loop.induct)
  case (1 b i s)
  from "1.prems" have inb: "i < length (mSlots s)" by simp
  show ?case
  proof (cases "i = k")
    case True
    then show ?thesis using "1.prems" inb
      by (subst signalBufferReturned_loop.simps) (auto simp: freed_slot_def)
  next
    case ne: False
    with "1.prems" have lt: "i < k" by simp
    show ?thesis
    proof (cases "mGraphicBuffer (mSlots s ! i) = None")
      case True
      have "signalBufferReturned_loop b (Suc i) s =
        Return (True, [signal mDequeueCondition, signal mFrameCompleteCondition], freed_slot k s)"
        using "1.IH"(1) [OF inb True] "1.prems" lt by simp
      then show ?thesis using inb True by (subst signalBufferReturned_loop.simps) simp
    next
      case False
      have chk: "checkBufferMatchesSlot i b s = Return False"
        using "1.prems" lt False by simp
      have "signalBufferReturned_loop b (Suc i) s =
        Return (True, [signal mDequeueCondition, signal mFrameCompleteCondition], freed_slot k s)"
        using "1.IH"(2) [OF inb False chk] "1.prems" lt by simp
      then show ?thesis using inb False chk by (subst signalBufferReturned_loop.simps) simp
    qed
  qed
qed

lemma signalBufferReturned_loop_found_first:
  "signalBufferReturned_loop b i s = Return (True, ev, s') \<Longrightarrow>
   \<exists>k. i \<le> k \<and> k < length (mSlots s) \<and> mGraphicBuffer (mSlots s ! k) \<noteq> None \<and>
       checkBufferMatchesSlot k b s = Return True \<and>
       (\<forall>j. i \<le> j \<and> j < k \<longrightarrow> mGraphicBuffer (mSlots s ! j) \<noteq> None \<longrightarrow>
          checkBufferMatchesSlot j b s = Return False) \<and>
       ev = [signal mDequeueCondition, signal mFrameCompleteCondition] \<and> s' = freed_slot k s"
proof (induction b i s rule: signalBufferReturned_loop.induct)
  case (1 b i s)
  have inb: "i < length (mSlots s)"
  proof (rule ccontr)
    assume "\<not> i < length (mSlots s)"
    then have "signalBufferReturned_loop b i s = Return (False, [], s)"
      by (subst signalBufferReturned_loop.simps) simp
    with "1.prems" show False by simp
  qed
  show ?case
  proof (cases "mGraphicBuffer (mSlots s ! i) = None")
    case True
    have "signalBufferReturned_loop b (Suc i) s = Return (True, ev, s')"
      using "1.prems" inb True by (subst (asm) signalBufferReturned_loop.simps) simp
    from "1.IH"(1) [OF inb True this] obtain k where
      k: "Suc i \<le> k" "k < length (mSlots s)" "mGraphicBuffer (mSlots s ! k) \<noteq> None"
         "checkBufferMatchesSlot k b s = Return True"
         "\<forall>j. Suc i \<le> j \<and> j < k \<longrightarrow> mGraphicBuffer (mSlots s ! j) \<noteq> None \<longrightarrow>
            checkBufferMatchesSlot j b s = Return False"
         "ev = [signal mDequeueCondition, signal mFrameCompleteCondition]" "s' = freed_slot k s"
      by blast
    have "\<forall>j. i \<le> j \<and> j < k \<longrightarrow> mGraphicBuffer (mSlots s ! j) \<noteq> None \<longrightarrow>
            checkBufferMatchesSlot j b s = Return False"
    proof (intro allI impI)
      fix j assume a: "i \<le> j \<and> j < k" and b: "mGraphicBuffer (mSlots s ! j) \<noteq> None"
      from a b True have "j \<noteq> i" by auto
      with a have "Suc i \<le> j \<and> j < k" by simp
      with k(5) b show "checkBufferMatchesSlot j b s = Return False" by blast
    qed
    with k show ?thesis by (intro exI [of _ k]) simp
  next
    case False
    show ?thesis
    proof (cases "checkBufferMatchesSlot i b s")
      case (Return m)
      show ?thesis
      proof (cases m)
        case True
        have "ev = [signal mDequeueCondition, signal mFrameCompleteCondition] \<and> s' = freed_slot i s"
          using "1.prems" inb False Return True
          by (subst (asm) signalBufferReturned_loop.simps) (auto simp: freed_slot_def)
        then show ?thesis using inb False Return True by (intro exI [of _ i]) auto
      next
        case mf: False
        with Return have chk: "checkBufferMatchesSlot i b s = Return False" by simp
        have "signalBufferReturned_loop b (Suc i) s = Return (True, ev, s')"
          using "1.prems" inb False chk by (subst (asm) signalBufferReturned_loop.simps) simp
        from "1.IH"(2) [OF inb False chk _ this] obtain k where
          k: "Suc i \<le> k" "k < length (mSlots s)" "mGraphicBuffer (mSlots s ! k) \<noteq> None"
             "checkBufferMatchesSlot k b s = Return True"
             "\<forall>j. Suc i \<le> j \<and> j < k \<longrightarrow> mGraphicBuffer (mSlots s ! j) \<noteq> None \<longrightarrow>
                checkBufferMatchesSlot j b s = Return False"
             "ev = [signal mDequeueCondition, signal mFrameCompleteCondition]" "s' = freed_slot k s"
          by blast
        have "\<forall>j. i \<le> j \<and> j < k \<longrightarrow> mGraphicBuffer (mSlots s ! j) \<noteq> None \<longrightarrow>
                checkBufferMatchesSlot j b s = Return False"
        proof (intro allI impI)
          fix j assume a: "i \<le> j \<and> j < k" and b: "mGraphicBuffer (mSlots s ! j) \<noteq> None"
          show "checkBufferMatchesSlot j b s = Return False"
          proof (cases "j = i")
            case True then show ?thesis using chk by simp
          next
            case False
            with a have "Suc i \<le> j \<and> j < k" by simp
            with k(5) b show ?thesis by blast
          qed
        qed
        with k show ?thesis by (intro exI [of _ k]) simp
      qed
    next
      case Abort
      then show ?thesis using "1.prems" inb False
        by (subst (asm) signalBufferReturned_loop.simps) simp
    next
      case Fault
      then show ?thesis using "1.prems" inb False
        by (subst (asm) signalBufferReturned_loop.simps) simp
    next
      case Wait
      then show ?thesis using "1.prems" inb False
        by (subst (asm) signalBufferReturned_loop.simps) simp
    qed
  qed
qed

subsection \<open>signalBufferReturned with a record that matches no slot\<close>

text \<open>
  C3: when the session is stopped, signalBufferReturned is a no-op: it returns and
  changes no member. When the session is not stopped and the handle bytes of the record
  differ from the handle of every slot that holds a buffer, the call ends in the abort
  of the failed check, not in a return.
\<close>

theorem signalBufferReturned_no_match:
  "(mStopped s \<longrightarrow> signalBufferReturned b s = Return ([], s)) \<and>
   (\<not> mStopped s \<and>
    (\<forall>i < length (mSlots s). mGraphicBuffer (mSlots s ! i) \<noteq> None \<longrightarrow>
        checkBufferMatchesSlot i b s = Return False) \<longrightarrow>
    signalBufferReturned b s = Abort)"
proof (intro conjI impI)
  assume "mStopped s"
  then show "signalBufferReturned b s = Return ([], s)" by (simp add: signalBufferReturned_def)
next
  assume a: "\<not> mStopped s \<and>
    (\<forall>i < length (mSlots s). mGraphicBuffer (mSlots s ! i) \<noteq> None \<longrightarrow>
        checkBufferMatchesSlot i b s = Return False)"
  then have "signalBufferReturned_loop b 0 s = Return (False, [], s)"
    by (intro signalBufferReturned_loop_no_match) simp
  with a show "signalBufferReturned b s = Abort" by (simp add: signalBufferReturned_def)
qed

theorem signalBufferReturned_no_match_witness:
  "mStopped stopped_session \<and>
   signalBufferReturned bogus_record stopped_session = Return ([], stopped_session) \<and>
   \<not> mStopped session \<and>
   length (mSlots session) = 4 \<and>
   map (mGraphicBuffer) (mSlots session) = [Some buffer_A, Some buffer_B, None, None] \<and>
   checkBufferMatchesSlot 0 bogus_record session = Return False \<and>
   checkBufferMatchesSlot 1 bogus_record session = Return False \<and>
   signalBufferReturned bogus_record session = Abort"
proof -
  have c0: "checkBufferMatchesSlot 0 bogus_record session = Return False"
    by (simp add: checkBufferMatchesSlot_def session_def buffer_A_def bogus_record_def)
  have c1: "checkBufferMatchesSlot 1 bogus_record session = Return False"
    by (simp add: checkBufferMatchesSlot_def session_def buffer_B_def bogus_record_def)
  have len: "length (mSlots session) = 4" by (simp add: session_def)
  have bufs: "map (mGraphicBuffer) (mSlots session) = [Some buffer_A, Some buffer_B, None, None]"
    by (simp add: session_def empty_slot_def)
  have all: "\<forall>i < length (mSlots session). mGraphicBuffer (mSlots session ! i) \<noteq> None \<longrightarrow>
        checkBufferMatchesSlot i bogus_record session = Return False"
  proof (intro allI impI)
    fix i assume "i < length (mSlots session)" and nn: "mGraphicBuffer (mSlots session ! i) \<noteq> None"
    then have "i = 0 \<or> i = 1 \<or> i = 2 \<or> i = 3" using len by auto
    then show "checkBufferMatchesSlot i bogus_record session = Return False"
      using c0 c1 nn by (auto simp: session_def empty_slot_def)
  qed
  have ns: "\<not> mStopped session" by (simp add: session_def)
  have st: "mStopped stopped_session" by (simp add: stopped_session_def)
  show ?thesis
    using signalBufferReturned_no_match [of stopped_session bogus_record]
      signalBufferReturned_no_match [of session bogus_record] all ns st c0 c1 len bufs
    by simp
qed

subsection \<open>signalBufferReturned frees the first matching slot only\<close>

text \<open>
  C9: on a session that is not stopped, signalBufferReturned frees at most one slot. When
  slot k holds a buffer whose handle equals the handle bytes of the record, and no slot
  below k that holds a buffer does, the call returns with slot k set to \<^verbatim>\<open>FREE\<close>
  and every other slot and member unchanged, also when slots above k hold the same
  handle; and whenever the call returns, the members are those with exactly this lowest
  matching slot freed.
\<close>

theorem signalBufferReturned_frees_first_match:
  assumes "\<not> mStopped s"
  shows "(k < length (mSlots s) \<and> mGraphicBuffer (mSlots s ! k) \<noteq> None \<and>
          checkBufferMatchesSlot k b s = Return True \<and>
          (\<forall>j < k. mGraphicBuffer (mSlots s ! j) \<noteq> None \<longrightarrow>
             checkBufferMatchesSlot j b s = Return False) \<longrightarrow>
          signalBufferReturned b s =
            Return ([signal mDequeueCondition, signal mFrameCompleteCondition], freed_slot k s)) \<and>
         (signalBufferReturned b s = Return (ev, s') \<longrightarrow>
          (\<exists>k < length (mSlots s).
             mGraphicBuffer (mSlots s ! k) \<noteq> None \<and>
             checkBufferMatchesSlot k b s = Return True \<and>
             (\<forall>j < k. mGraphicBuffer (mSlots s ! j) \<noteq> None \<longrightarrow>
                checkBufferMatchesSlot j b s = Return False) \<and>
             s' = freed_slot k s))"
proof (intro conjI impI)
  assume a: "k < length (mSlots s) \<and> mGraphicBuffer (mSlots s ! k) \<noteq> None \<and>
          checkBufferMatchesSlot k b s = Return True \<and>
          (\<forall>j < k. mGraphicBuffer (mSlots s ! j) \<noteq> None \<longrightarrow>
             checkBufferMatchesSlot j b s = Return False)"
  then have "signalBufferReturned_loop b 0 s =
     Return (True, [signal mDequeueCondition, signal mFrameCompleteCondition], freed_slot k s)"
    by (intro signalBufferReturned_loop_first_match) simp_all
  with assms show "signalBufferReturned b s =
            Return ([signal mDequeueCondition, signal mFrameCompleteCondition], freed_slot k s)"
    by (simp add: signalBufferReturned_def)
next
  assume r: "signalBufferReturned b s = Return (ev, s')"
  with assms have "signalBufferReturned_loop b 0 s = Return (True, ev, s')"
    by (auto simp: signalBufferReturned_def split: outcome.splits if_splits)
  from signalBufferReturned_loop_found_first [OF this]
  show "\<exists>k < length (mSlots s).
             mGraphicBuffer (mSlots s ! k) \<noteq> None \<and>
             checkBufferMatchesSlot k b s = Return True \<and>
             (\<forall>j < k. mGraphicBuffer (mSlots s ! j) \<noteq> None \<longrightarrow>
                checkBufferMatchesSlot j b s = Return False) \<and>
             s' = freed_slot k s"
    by auto
qed

theorem signalBufferReturned_frees_first_match_witness:
  "\<not> mStopped twin_session \<and>
   map mGraphicBuffer (mSlots twin_session) = [Some buffer_A, Some buffer_A, None, None] \<and>
   map mBufferState (mSlots twin_session) = [QUEUED, QUEUED, FREE, FREE] \<and>
   checkBufferMatchesSlot 0 record_A twin_session = Return True \<and>
   checkBufferMatchesSlot 1 record_A twin_session = Return True \<and>
   signalBufferReturned record_A twin_session =
     Return ([signal mDequeueCondition, signal mFrameCompleteCondition],
             freed_slot 0 twin_session) \<and>
   map mBufferState (mSlots (freed_slot 0 twin_session)) = [FREE, QUEUED, FREE, FREE]"
proof -
  have ns: "\<not> mStopped twin_session" by (simp add: twin_session_def session_def)
  have c0: "checkBufferMatchesSlot 0 record_A twin_session = Return True"
    by (simp add: checkBufferMatchesSlot_def twin_session_def session_def buffer_A_def record_A_def)
  have c1: "checkBufferMatchesSlot 1 record_A twin_session = Return True"
    by (simp add: checkBufferMatchesSlot_def twin_session_def session_def buffer_A_def record_A_def)
  have bufs: "map mGraphicBuffer (mSlots twin_session) = [Some buffer_A, Some buffer_A, None, None]"
    by (simp add: twin_session_def session_def empty_slot_def)
  have sts: "map mBufferState (mSlots twin_session) = [QUEUED, QUEUED, FREE, FREE]"
    by (simp add: twin_session_def session_def empty_slot_def)
  have after: "map mBufferState (mSlots (freed_slot 0 twin_session)) = [FREE, QUEUED, FREE, FREE]"
    by (simp add: freed_slot_def twin_session_def session_def empty_slot_def)
  have pre: "0 < length (mSlots twin_session) \<and> mGraphicBuffer (mSlots twin_session ! 0) \<noteq> None"
    by (simp add: twin_session_def session_def)
  show ?thesis
    using signalBufferReturned_frees_first_match [OF ns, of 0 record_A] ns c0 c1 bufs sts after pre
    by simp
qed

subsection \<open>The round trip of slot 0\<close>

lemma length_le32: "length (le32 w) = 4"
  by (simp add: le32_def)

lemma le32_1: "le32 1 = [1, 0, 0, 0]"
  by (simp add: le32_def)

text \<open>
  C2: on a session that is not stopped, with slot 0 at the front of the Ready Queue and
  holding a buffer, read (its record allocated) returns \<^verbatim>\<open>OK\<close> and a record whose
  bytes are the 4 bytes of the tag followed by exactly the handle of slot 0's buffer; and
  signalBufferReturned on that record, in the state read leaves, returns and sets the
  state of slot 0 to \<^verbatim>\<open>FREE\<close>. The frame counter in the state read leaves is
  the 32-bit successor of the old one.
\<close>

theorem read_then_return_slot0:
  assumes "\<not> mStopped s" and "mQueue s = 0 # rest" and "mSlots s \<noteq> []"
    and "mGraphicBuffer (mSlots s ! 0) = Some gb"
    and "b = \<lparr>data = le32 tag @ handle gb, observer = True, refcount = 1,
              kKeyTime = Some (mTimestamp (mSlots s ! 0) sdiv 1000)\<rparr>"
    and "s1 = s\<lparr>mCurrentSlot := 0, mQueue := rest, mCurrentBuf := Some gb,
                 mCurrentTimestamp := mTimestamp (mSlots s ! 0),
                 mNumFramesEncoded := mNumFramesEncoded s + 1\<rparr>"
  shows "read tag True s = Return (OK, Some b, s1) \<and>
         data b = le32 tag @ handle gb \<and> length (le32 tag) = 4 \<and>
         signalBufferReturned b s1 =
           Return ([signal mDequeueCondition, signal mFrameCompleteCondition], freed_slot 0 s1) \<and>
         mBufferState (mSlots (freed_slot 0 s1) ! 0) = FREE"
proof -
  have r: "read tag True s = Return (OK, Some b, s1)"
    using assms
    by (simp add: read_def passMetadataBufferLocked_def NUM_BUFFER_SLOTS_def)
  have ns: "\<not> mStopped s1" using assms by simp
  have chk: "checkBufferMatchesSlot 0 b s1 = Return True"
    using assms by (simp add: checkBufferMatchesSlot_def length_le32)
  have "signalBufferReturned_loop b 0 s1 =
     Return (True, [signal mDequeueCondition, signal mFrameCompleteCondition], freed_slot 0 s1)"
    using assms chk by (intro signalBufferReturned_loop_first_match) simp_all
  then have sb: "signalBufferReturned b s1 =
           Return ([signal mDequeueCondition, signal mFrameCompleteCondition], freed_slot 0 s1)"
    using ns by (simp add: signalBufferReturned_def)
  have fr: "mBufferState (mSlots (freed_slot 0 s1) ! 0) = FREE"
    using assms by (simp add: freed_slot_def)
  have d: "data b = le32 tag @ handle gb" using assms by simp
  from r d sb fr show ?thesis by (simp add: length_le32)
qed

theorem read_then_return_slot0_witness:
  "\<not> mStopped session \<and> mQueue session = [0] \<and> mSlots session \<noteq> [] \<and>
   mGraphicBuffer (mSlots session ! 0) = Some buffer_A \<and>
   mBufferState (mSlots session ! 0) = QUEUED \<and>
   read 1 True session = Return (OK, Some record_A, session_read) \<and>
   data record_A = [1, 0, 0, 0] @ handle buffer_A \<and>
   signalBufferReturned record_A session_read =
     Return ([signal mDequeueCondition, signal mFrameCompleteCondition],
             freed_slot 0 session_read) \<and>
   mBufferState (mSlots (freed_slot 0 session_read) ! 0) = FREE"
proof -
  have h1: "\<not> mStopped session" and h2: "mQueue session = [0]" and h3: "mSlots session \<noteq> []"
    and h4: "mGraphicBuffer (mSlots session ! 0) = Some buffer_A"
    and q: "mBufferState (mSlots session ! 0) = QUEUED"
    by (simp_all add: session_def)
  have b: "record_A = \<lparr>data = le32 1 @ handle buffer_A, observer = True, refcount = 1,
              kKeyTime = Some (mTimestamp (mSlots session ! 0) sdiv 1000)\<rparr>"
    by (simp add: record_A_def le32_1 buffer_A_def session_def signed_divide_int_def)
  have s1: "session_read = session\<lparr>mCurrentSlot := 0, mQueue := [], mCurrentBuf := Some buffer_A,
                 mCurrentTimestamp := mTimestamp (mSlots session ! 0),
                 mNumFramesEncoded := mNumFramesEncoded session + 1\<rparr>"
    by (simp add: session_read_def session_def)
  have d: "data record_A = [1, 0, 0, 0] @ handle buffer_A"
    by (simp add: record_A_def buffer_A_def)
  show ?thesis
    using read_then_return_slot0 [OF h1 h2 h3 h4 b s1] h1 h2 h3 h4 q d by simp
qed

text \<open>
  The frame counter and the start time are machine words: at the largest 32-bit
  \<^verbatim>\<open>int\<close> the increment in read wraps to the smallest one, and the product in
  start wraps likewise.
\<close>

lemma read_frame_counter_wraps:
  "read 1 True (session\<lparr>mNumFramesEncoded := 0x7FFFFFFF\<rparr>) =
     Return (OK, Some record_A, session_read\<lparr>mNumFramesEncoded := 0x80000000\<rparr>) \<and>
   sint (0x80000000 :: 32 word) = - 2147483648"
  by (simp add: read_def passMetadataBufferLocked_def NUM_BUFFER_SLOTS_def session_def
      session_read_def record_A_def le32_1 buffer_A_def signed_divide_int_def)

lemma start_product_wraps:
  "snd (start (Some 0x7FFFFFFFFFFFFFFF) session) =
     session\<lparr>mStartTimeNs := 0xFFFFFFFFFFFFFC18\<rparr>"
  by (simp add: start_def)

subsection \<open>What stop and disconnect leave behind\<close>



















end
